theory Spec2Isabelle
  imports Main "HOL-Library.Sublist" "HOL-Library.Word"
begin

section \<open>The sender: \<^verbatim>\<open>src/sender/sender.cpp\<close>\<close>

text \<open>
  The sender probes FFmpeg for the NVENC encoder, builds one command line, starts FFmpeg
  with it and waits for the child. Everything it does beyond computing strings is a call
  into the C runtime or the Win32 API. The model makes those calls explicit: the answers
  of the operating system are read from an environment \<open>env\<close>, and every call and every
  write to a console stream is appended to a trace of events. A function of the source
  becomes a function from the environment to its trace and its result; a result is a
  returned value, a thrown exception, or a call that never comes back.

  Strings are \<open>char list\<close>; a \<open>char\<close> is a byte, as a C++ \<open>char\<close> is. An element of
  \<open>argv\<close> is the content of a C string, so it holds no NUL.

  \<open>main\<close> follows the program as long as nothing ends it from outside; \<open>run_in_console\<close>
  adds the operator who presses Ctrl+C while the program waits for the child. What the
  model leaves out: storage running out anywhere but in the append of the read loop,
  which is the one place where the source provides for an exception after it has acquired
  a resource. The bytes of a pipe are the bytes \<open>fgets\<close> sees, after the text-mode
  translation of the C runtime.
\<close>

subsection \<open>Configuration (lines 9--13)\<close>

definition DEFAULT_TARGET_IP :: string where
  "DEFAULT_TARGET_IP = ''192.168.1.100''"

definition TARGET_PORT :: int where
  "TARGET_PORT = 5555"

definition FRAME_RATE :: int where
  "FRAME_RATE = 60"

subsection \<open>Text output of numbers\<close>

text \<open>
  \<open>stream << n\<close> for an integer writes its decimal digits, with a leading minus sign for
  a negative \<open>int\<close> (the default \<open>"C"\<close> locale groups no digits). \<open>show_nat\<close> is used for
  the unsigned \<open>DWORD\<close> of \<open>GetLastError\<close>, \<open>show_int\<close> for the \<open>int\<close> constants.
\<close>

definition digit_char :: "nat \<Rightarrow> char" where
  "digit_char d = ''0123456789'' ! d"

function show_nat :: "nat \<Rightarrow> string" where
  "show_nat n = (if n < 10 then [digit_char n] else show_nat (n div 10) @ [digit_char (n mod 10)])"
  by pat_completeness auto
termination
  by (relation "measure (\<lambda>n. n)") auto

declare show_nat.simps [simp del]

definition show_int :: "int \<Rightarrow> string" where
  "show_int i = (if i < 0 then CHR ''-'' # show_nat (nat (- i)) else show_nat (nat i))"

text \<open>
  Reading decimal text back, to say which number a text written by \<open><<\<close> shows: a
  decimal digit is one of the characters \<open>0\<close> to \<open>9\<close>, its value is its distance from
  \<open>0\<close> in ASCII (48), and digits are read from the left, the most significant first.
\<close>

definition decimal_digit :: "char \<Rightarrow> bool" where
  "decimal_digit c \<longleftrightarrow> c \<in> set ''0123456789''"

definition digit_value :: "char \<Rightarrow> nat" where
  "digit_value c = of_char c - 48"

definition decimal_value :: "string \<Rightarrow> nat" where
  "decimal_value s = foldl (\<lambda>v c. 10 * v + digit_value c) 0 s"

definition endl :: string where
  "endl = [CHR 0x0A]"

definition NUL :: char where
  "NUL = CHR 0x00"

subsection \<open>Results, exceptions, events and the environment\<close>

text \<open>
  The exceptions of the model: the \<open>std::runtime_error\<close> of line 20 and the
  \<open>std::bad_alloc\<close> of a failing \<open>result += buffer\<close> on line 23. Both derive from
  \<open>std::exception\<close>, so the handler of line 48 catches them. The text of
  \<open>bad_alloc::what()\<close> is left to the C++ library, so the environment supplies it.
\<close>

datatype exn = Runtime_error string | Bad_alloc

datatype 'a result = Returns 'a | Throws exn | Blocks

type_synonym DWORD = "32 word"

type_synonym HANDLE = nat

record PROCESS_INFORMATION =
  hProcess :: HANDLE
  hThread :: HANDLE

text \<open>
  What a pipe opened by \<open>_popen\<close> delivers to \<open>fgets\<close>: its bytes, and then either the end
  of the stream or nothing more for ever (the child neither writes nor closes its output).
\<close>

datatype pipe_end = Eof | Never_closes

datatype pipe = Pipe string pipe_end

record env =
  os_popen :: "string \<Rightarrow> pipe option"
    \<comment> \<open>\<open>_popen(cmd, "r")\<close>: \<open>None\<close> is the null pointer\<close>
  append_fails_at :: "nat option"
    \<comment> \<open>the iteration of the read loop (from 0) whose \<open>result += buffer\<close> throws\<close>
  bad_alloc_what :: string
  os_create_process :: "string \<Rightarrow> DWORD + PROCESS_INFORMATION"
    \<comment> \<open>\<open>CreateProcessA\<close> on a command line: \<open>Inl code\<close> is failure, with the value
       \<open>GetLastError()\<close> then returns\<close>
  child_exit_code :: "HANDLE \<Rightarrow> DWORD option"
    \<comment> \<open>the exit code the child ends with; \<open>None\<close> when it never terminates\<close>

datatype event =
    Stdout string
  | Stderr string
  | Popen string string bool \<comment> \<open>command, mode, whether a pipe was opened\<close>
  | Pclose
  | CreateProcessA string "PROCESS_INFORMATION option" \<comment> \<open>buffer passed, handles on success\<close>
  | WaitForSingleObject HANDLE
  | CloseHandle HANDLE

fun what :: "env \<Rightarrow> exn \<Rightarrow> string" where
  "what env (Runtime_error msg) = msg"
| "what env Bad_alloc = bad_alloc_what env"

subsection \<open>\<open>exec\<close> (lines 16--31)\<close>

text \<open>
  \<open>fgets(buffer, n, pipe)\<close> stores at most \<open>n - 1\<close> characters, stops after a newline, and
  returns the null pointer (\<open>None\<close>) when the stream is at its end before any character
  was read. \<open>read_line k s\<close> is the characters stored and the rest of the stream.
\<close>

fun read_line :: "nat \<Rightarrow> string \<Rightarrow> string \<times> string" where
  "read_line k [] = ([], [])"
| "read_line k (c # cs) =
     (if k = 0 then ([], c # cs)
      else if c = CHR 0x0A then ([c], cs)
      else (case read_line (k - 1) cs of (l, r) \<Rightarrow> (c # l, r)))"

definition fgets :: "nat \<Rightarrow> string \<Rightarrow> (string \<times> string) option" where
  "fgets n stream = (if stream = [] then None else Some (read_line (n - 1) stream))"

text \<open>
  \<open>result += buffer\<close> appends a C string: the characters of the buffer before its first
  NUL. A NUL byte read from the pipe therefore cuts the chunk short.
\<close>

definition c_str :: "string \<Rightarrow> string" where
  "c_str buffer = takeWhile (\<lambda>c. c \<noteq> NUL) buffer"

definition BUFFER_SIZE :: nat where
  "BUFFER_SIZE = 128"

lemma read_line_length: "length (snd (read_line k s)) \<le> length s"
  by (induction k s rule: read_line.induct) (auto split: prod.splits)

lemma read_line_shorter:
  "0 < k \<Longrightarrow> s \<noteq> [] \<Longrightarrow> length (snd (read_line k s)) < length s"
proof (cases s)
  case Nil
  assume "s \<noteq> []"
  with Nil show ?thesis by simp
next
  case (Cons c cs)
  assume "0 < k"
  have "length (snd (read_line (k - 1) cs)) \<le> length cs"
    by (rule read_line_length)
  with Cons \<open>0 < k\<close> show ?thesis
    by (auto split: prod.splits)
qed

lemma fgets_shorter:
  "fgets BUFFER_SIZE stream = Some (buffer, rest) \<Longrightarrow> length rest < length stream"
proof -
  assume a: "fgets BUFFER_SIZE stream = Some (buffer, rest)"
  then have ne: "stream \<noteq> []"
    by (auto simp: fgets_def split: if_splits)
  from a ne have "rest = snd (read_line (BUFFER_SIZE - 1) stream)"
    by (auto simp: fgets_def)
  moreover have "0 < BUFFER_SIZE - 1"
    by (simp add: BUFFER_SIZE_def)
  ultimately show ?thesis
    using read_line_shorter [of "BUFFER_SIZE - 1" stream] ne by simp
qed

text \<open>
  The loop of lines 22--24, with the iteration counter \<open>i\<close> that decides where the
  environment lets the append fail.
\<close>

function read_loop :: "nat option \<Rightarrow> pipe_end \<Rightarrow> nat \<Rightarrow> string \<Rightarrow> string \<Rightarrow> string result" where
  "read_loop fail_at ending i stream result =
     (case fgets BUFFER_SIZE stream of
        None \<Rightarrow> (case ending of Eof \<Rightarrow> Returns result | Never_closes \<Rightarrow> Blocks)
      | Some (buffer, rest) \<Rightarrow>
          if fail_at = Some i then Throws Bad_alloc
          else read_loop fail_at ending (Suc i) rest (result @ c_str buffer))"
  by pat_completeness auto
termination
  by (relation "measure (\<lambda>(fail_at, ending, i, stream, result). length stream)")
     (auto dest: fgets_shorter)

declare read_loop.simps [simp del]

definition exec :: "env \<Rightarrow> string \<Rightarrow> event list \<times> string result" where
  "exec env cmd =
     (case os_popen env cmd of
        None \<Rightarrow> ([Popen cmd ''r'' False], Throws (Runtime_error ''_popen() failed!''))
      | Some (Pipe content ending) \<Rightarrow>
          (case read_loop (append_fails_at env) ending 0 content [] of
             Returns result \<Rightarrow> ([Popen cmd ''r'' True, Pclose], Returns result)
           | Throws e \<Rightarrow> ([Popen cmd ''r'' True, Pclose], Throws e)
           | Blocks \<Rightarrow> ([Popen cmd ''r'' True], Blocks)))"

subsection \<open>\<open>checkNvencAvailable\<close> (lines 34--53)\<close>

text \<open>
  \<open>haystack.find(needle)\<close>: the first position where \<open>needle\<close> starts, \<open>None\<close> for
  \<open>std::string::npos\<close>.
\<close>

fun str_find :: "string \<Rightarrow> string \<Rightarrow> nat option" where
  "str_find [] needle = (if needle = [] then Some 0 else None)"
| "str_find (c # cs) needle =
     (if prefix needle (c # cs) then Some 0 else map_option Suc (str_find cs needle))"

definition probe_command :: string where
  "probe_command = ''ffmpeg -hide_banner -encoders | findstr h264_nvenc''"

definition checkNvencAvailable :: "env \<Rightarrow> event list \<times> bool result" where
  "checkNvencAvailable env =
     (let command = probe_command;
          ev0 = [Stdout (''Checking for NVENC availability...'' @ endl)]
      in case exec env command of
           (ev1, Returns output) \<Rightarrow>
             if str_find output ''h264_nvenc'' \<noteq> None
             then (ev0 @ ev1 @ [Stdout (''NVENC encoder found.'' @ endl)], Returns True)
             else (ev0 @ ev1 @
                   [Stderr (''Error: h264_nvenc encoder not found by FFmpeg.'' @ endl),
                    Stderr (''Please ensure you have NVIDIA drivers installed and an FFmpeg build with NVENC enabled.'' @ endl)],
                   Returns False)
         | (ev1, Throws e) \<Rightarrow>
             (ev0 @ ev1 @
              [Stderr (''Error checking for NVENC: '' @ what env e @ endl),
               Stderr (''Is FFmpeg installed and in your system'' @ [CHR 0x27] @ ''s PATH?'' @ endl)],
              Returns False)
         | (ev1, Blocks) \<Rightarrow> (ev0 @ ev1, Blocks))"

subsection \<open>\<open>main\<close> (lines 56--134)\<close>

text \<open>Lines 57--65: the target host, and the line written about it.\<close>

definition resolve_target :: "string list \<Rightarrow> string" where
  "resolve_target argv = (if length argv > 1 then argv ! 1 else DEFAULT_TARGET_IP)"

definition announce_target :: "string list \<Rightarrow> event list" where
  "announce_target argv =
     (if length argv > 1
      then [Stdout (''Using target IP from command line: '' @ argv ! 1 @ endl)]
      else [Stdout (''Using default target IP: '' @ DEFAULT_TARGET_IP @ endl)])"

text \<open>Lines 76--90: the command line, as the string stream collects it.\<close>

definition build_stream_command :: "string \<Rightarrow> string" where
  "build_stream_command targetIp =
     ''ffmpeg -hide_banner '' @
     ''-f gdigrab '' @
     ''-framerate '' @ show_int FRAME_RATE @ '' '' @
     ''-i desktop '' @
     ''-c:v h264_nvenc '' @
     ''-preset p1 '' @
     ''-tune ll '' @
     ''-qp 0 '' @
     ''-rc constqp '' @
     ''-f mpegts '' @
     ''udp://'' @ targetIp @ '':'' @ show_int TARGET_PORT"

text \<open>
  Lines 93--133. \<open>cmdVec\<close> is the command line with the terminating NUL of line 103.
  \<open>argv\<close> is the argument vector, \<open>argc\<close> its length.
\<close>

definition launch :: "env \<Rightarrow> string \<Rightarrow> event list \<times> int result" where
  "launch env ffmpegCmd =
     (let cmdVec = ffmpegCmd @ [NUL] in
      case os_create_process env cmdVec of
        Inl code \<Rightarrow>
          ([CreateProcessA cmdVec None,
            Stderr (''CreateProcess failed ('' @ show_nat (unat code) @ '').'' @ endl),
            Stderr (''Ensure ffmpeg.exe is in your system'' @ [CHR 0x27] @
                    ''s PATH or in the same directory as sender.exe.'' @ endl)],
           Returns 1)
      | Inr pi \<Rightarrow>
          (let started =
                 [CreateProcessA cmdVec (Some pi),
                  Stdout (''Streaming started... Press Ctrl+C in this window to stop.'' @ endl),
                  WaitForSingleObject (hProcess pi)]
           in case child_exit_code env (hProcess pi) of
                None \<Rightarrow> (started, Blocks)
              | Some code \<Rightarrow>
                  (started @
                   [Stdout (''Streaming stopped.'' @ endl),
                    CloseHandle (hProcess pi),
                    CloseHandle (hThread pi)],
                   Returns 0)))"

definition main :: "env \<Rightarrow> string list \<Rightarrow> event list \<times> int result" where
  "main env argv =
     (let targetIp = resolve_target argv;
          ev0 = announce_target argv
      in case checkNvencAvailable env of
           (ev1, Blocks) \<Rightarrow> (ev0 @ ev1, Blocks)
         | (ev1, Throws e) \<Rightarrow> (ev0 @ ev1, Throws e)
         | (ev1, Returns False) \<Rightarrow> (ev0 @ ev1, Returns 1)
         | (ev1, Returns True) \<Rightarrow>
             (let ffmpegCmd = build_stream_command targetIp;
                  ev2 = [Stdout (endl @ ''Executing FFmpeg command:'' @ endl @ ffmpegCmd @ endl @ endl)]
              in case launch env ffmpegCmd of
                   (ev3, r) \<Rightarrow> (ev0 @ ev1 @ ev2 @ ev3, r)))"

subsection \<open>The process in its console\<close>



definition STATUS_CONTROL_C_EXIT :: DWORD where
  "STATUS_CONTROL_C_EXIT = 0xC000013A"




subsection \<open>Tokens of a command line\<close>

text \<open>
  The specification speaks of the tokens of the command line and of hosts without
  command-separator characters. The source has no tokenizer of its own (the command line
  is handed to \<open>CreateProcessA\<close> as one string), so these two notions follow the
  specification: a separator is white space or one of the characters that end a command
  (\<open>&\<close>, \<open>|\<close>, \<open>;\<close>), and the tokens of a string are its maximal runs of characters
  that are not separators.
\<close>

definition command_separator :: "char \<Rightarrow> bool" where
  "command_separator c \<longleftrightarrow>
     c \<in> set [CHR '' '', CHR 0x09, CHR 0x0A, CHR 0x0D, CHR ''&'', CHR ''|'', CHR '';'']"

fun tokens_acc :: "string \<Rightarrow> string \<Rightarrow> string list" where
  "tokens_acc cur [] = (if cur = [] then [] else [cur])"
| "tokens_acc cur (c # cs) =
     (if command_separator c
      then (if cur = [] then tokens_acc [] cs else cur # tokens_acc [] cs)
      else tokens_acc (cur @ [c]) cs)"

definition tokens :: "string \<Rightarrow> string list" where
  "tokens s = tokens_acc [] s"

subsection \<open>Resources held along a trace\<close>

text \<open>
  The pipe of \<open>_popen\<close> and the two handles that \<open>CreateProcessA\<close> stores in the
  \<open>PROCESS_INFORMATION\<close> are the resources the program acquires. \<open>held_after\<close> follows
  a trace and keeps what was acquired and not yet released.
\<close>

datatype resource = Pipe_resource | Handle_resource HANDLE

fun track :: "resource list \<Rightarrow> event \<Rightarrow> resource list" where
  "track held (Popen cmd mode opened) = (if opened then Pipe_resource # held else held)"
| "track held Pclose = remove1 Pipe_resource held"
| "track held (CreateProcessA cmdVec (Some pi)) =
     Handle_resource (hProcess pi) # Handle_resource (hThread pi) # held"
| "track held (CreateProcessA cmdVec None) = held"
| "track held (CloseHandle h) = remove1 (Handle_resource h) held"
| "track held (WaitForSingleObject h) = held"
| "track held (Stdout text) = held"
| "track held (Stderr text) = held"

definition held_after :: "event list \<Rightarrow> resource list" where
  "held_after trace = foldl track [] trace"

subsection \<open>Environments for the concrete runs\<close>

text \<open>
  A machine where everything works (\<open>findstr\<close> passes on the one line of the encoder list
  that names NVENC, FFmpeg starts and ends with exit code 0), and variations of it: no
  matching line, no pipe, no memory for the first chunk read, no FFmpeg to start
  (\<open>ERROR_FILE_NOT_FOUND\<close> is 2), a child that dies of an access violation, a child
  that never ends, an executable that is no valid image (\<open>ERROR_BAD_EXE_FORMAT\<close> is 193),
  and a child ended by the operator's Ctrl+C.
\<close>

definition encoder_listing :: string where
  "encoder_listing = '' V....D h264_nvenc           NVIDIA NVENC H.264 encoder (codec h264)'' @ endl"

definition nvenc_env :: env where
  "nvenc_env =
     \<lparr>os_popen = (\<lambda>cmd. Some (Pipe encoder_listing Eof)),
      append_fails_at = None,
      bad_alloc_what = ''bad allocation'',
      os_create_process = (\<lambda>cmdVec. Inr \<lparr>hProcess = 100, hThread = 104\<rparr>),
      child_exit_code = (\<lambda>h. Some 0)\<rparr>"

definition no_nvenc_env :: env where
  "no_nvenc_env = nvenc_env\<lparr>os_popen := (\<lambda>cmd. Some (Pipe [] Eof))\<rparr>"

definition no_pipe_env :: env where
  "no_pipe_env = nvenc_env\<lparr>os_popen := (\<lambda>cmd. None)\<rparr>"

definition no_memory_env :: env where
  "no_memory_env = nvenc_env\<lparr>append_fails_at := Some 0\<rparr>"

definition no_launch_env :: env where
  "no_launch_env = nvenc_env\<lparr>os_create_process := (\<lambda>cmdVec. Inl 2)\<rparr>"

definition crashed_child_env :: env where
  "crashed_child_env = nvenc_env\<lparr>child_exit_code := (\<lambda>h. Some 0xC0000005)\<rparr>"

definition endless_child_env :: env where
  "endless_child_env = nvenc_env\<lparr>child_exit_code := (\<lambda>h. None)\<rparr>"

definition bad_image_env :: env where
  "bad_image_env = nvenc_env\<lparr>os_create_process := (\<lambda>cmdVec. Inl 193)\<rparr>"

definition interrupted_child_env :: env where
  "interrupted_child_env = nvenc_env\<lparr>child_exit_code := (\<lambda>h. Some STATUS_CONTROL_C_EXIT)\<rparr>"

section \<open>The command builder\<close>

lemma show_int_FRAME_RATE: "show_int FRAME_RATE = ''60''"
  by (simp add: show_int_def FRAME_RATE_def show_nat.simps digit_char_def)

lemma show_int_TARGET_PORT: "show_int TARGET_PORT = ''5555''"
  by (simp add: show_int_def TARGET_PORT_def show_nat.simps digit_char_def)

lemma build_stream_command_eq:
  "build_stream_command targetIp =
     ''ffmpeg -hide_banner -f gdigrab -framerate 60 -i desktop -c:v h264_nvenc -preset p1 -tune ll -qp 0 -rc constqp -f mpegts udp://'' @ targetIp @ '':5555''"
  by (simp add: build_stream_command_def show_int_FRAME_RATE show_int_TARGET_PORT)

lemma tokens_acc_no_separator:
  "\<forall>c \<in> set s. \<not> command_separator c \<Longrightarrow>
     tokens_acc cur s = (if cur @ s = [] then [] else [cur @ s])"
  by (induction s arbitrary: cur) auto

lemma tokens_build_stream_command:
  assumes "\<forall>c \<in> set host. \<not> command_separator c"
  shows "tokens (build_stream_command host) =
     [''ffmpeg'', ''-hide_banner'', ''-f'', ''gdigrab'', ''-framerate'', ''60'', ''-i'', ''desktop'',
      ''-c:v'', ''h264_nvenc'', ''-preset'', ''p1'', ''-tune'', ''ll'', ''-qp'', ''0'', ''-rc'', ''constqp'',
      ''-f'', ''mpegts'', ''udp://'' @ host @ '':5555'']"
proof -
  have "\<forall>c \<in> set (host @ '':5555''). \<not> command_separator c"
    using assms by (auto simp: command_separator_def)
  then have "tokens_acc ''udp://'' (host @ '':5555'') = [''udp://'' @ host @ '':5555'']"
    by (simp add: tokens_acc_no_separator)
  then show ?thesis
    by (simp add: build_stream_command_eq tokens_def command_separator_def)
qed

lemma framerate_in_command: "sublist ''-framerate 60'' (build_stream_command host)"
proof -
  have "build_stream_command host =
      ''ffmpeg -hide_banner -f gdigrab '' @ ''-framerate 60'' @
      ('' -i desktop -c:v h264_nvenc -preset p1 -tune ll -qp 0 -rc constqp -f mpegts udp://'' @ host @ '':5555'')"
    by (simp add: build_stream_command_eq)
  then show ?thesis
    by (simp only: sublist_appendI)
qed

section \<open>The probe and the run\<close>

lemma str_find_None: "str_find haystack needle = None \<longleftrightarrow> \<not> sublist needle haystack"
  by (induction haystack) (auto simp: sublist_Cons_right)

lemma read_line_append: "read_line k s = (l, r) \<Longrightarrow> l @ r = s"
  by (induction k s arbitrary: l r rule: read_line.induct) (auto split: if_splits prod.splits)

lemma c_str_no_NUL: "NUL \<notin> set s \<Longrightarrow> c_str s = s"
  by (auto simp: c_str_def takeWhile_eq_all_conv)

text \<open>
  A NUL byte in the stream cuts its chunk short, so the captured text can differ from the
  bytes of the pipe; without NUL bytes the loop returns the stream as it came.
\<close>

lemma read_loop_cuts_at_NUL:
  "read_loop None Eof 0 (''h264_'' @ [NUL] @ ''x'' @ endl @ ''nvenc'' @ endl) [] =
     Returns (''h264_nvenc'' @ endl)"
  by (simp add: read_loop.simps fgets_def BUFFER_SIZE_def c_str_def NUL_def endl_def)

lemma read_loop_no_NUL:
  "fail_at = None \<Longrightarrow> ending = Eof \<Longrightarrow> NUL \<notin> set stream \<Longrightarrow>
   read_loop fail_at ending i stream acc = Returns (acc @ stream)"
proof (induction fail_at ending i stream acc rule: read_loop.induct)
  case (1 fail_at ending i stream result)
  show ?case
  proof (cases "fgets BUFFER_SIZE stream")
    case None
    then have "stream = []"
      by (simp add: fgets_def split: if_splits)
    with None "1.prems" show ?thesis
      by (simp add: read_loop.simps)
  next
    case (Some p)
    obtain buffer rest where p: "p = (buffer, rest)"
      by (cases p)
    from Some p have "read_line (BUFFER_SIZE - 1) stream = (buffer, rest)"
      by (simp add: fgets_def split: if_splits)
    then have split: "buffer @ rest = stream"
      by (rule read_line_append)
    with "1.prems" have no_NUL: "NUL \<notin> set buffer" "NUL \<notin> set rest"
      by auto
    from "1.prems" have go_on: "fail_at \<noteq> Some i"
      by simp
    from "1.IH" [OF Some p [symmetric] go_on "1.prems"(1,2) no_NUL(2)] have
      "read_loop fail_at ending (Suc i) rest (result @ c_str buffer) = Returns ((result @ c_str buffer) @ rest)" .
    moreover from Some p go_on have
      "read_loop fail_at ending i stream result =
       read_loop fail_at ending (Suc i) rest (result @ c_str buffer)"
      by (subst read_loop.simps) simp
    ultimately show ?thesis
      using split no_NUL(1) by (simp add: c_str_no_NUL)
  qed
qed

lemma read_loop_Eof_no_NUL:
  "NUL \<notin> set stream \<Longrightarrow> read_loop None Eof i stream acc = Returns (acc @ stream)"
  by (rule read_loop_no_NUL) simp_all

lemma exec_captures:
  "os_popen env cmd = Some (Pipe content Eof) \<Longrightarrow> append_fails_at env = None \<Longrightarrow>
   NUL \<notin> set content \<Longrightarrow> exec env cmd = ([Popen cmd ''r'' True, Pclose], Returns content)"
  by (simp add: exec_def read_loop_Eof_no_NUL)

lemma exec_popen_fails:
  "os_popen env cmd = None \<Longrightarrow>
   exec env cmd = ([Popen cmd ''r'' False], Throws (Runtime_error ''_popen() failed!''))"
  by (simp add: exec_def)

lemma exec_trace:
  "fst (exec env cmd) =
     (case os_popen env cmd of
        None \<Rightarrow> [Popen cmd ''r'' False]
      | Some p \<Rightarrow> if snd (exec env cmd) = Blocks then [Popen cmd ''r'' True]
                  else [Popen cmd ''r'' True, Pclose])"
  by (auto simp: exec_def split: option.splits pipe.splits result.splits)

lemma checkNvencAvailable_result:
  "snd (checkNvencAvailable env) =
     (case snd (exec env probe_command) of
        Returns output \<Rightarrow> Returns (sublist ''h264_nvenc'' output)
      | Throws e \<Rightarrow> Returns False
      | Blocks \<Rightarrow> Blocks)"
  by (cases "exec env probe_command")
     (auto simp: checkNvencAvailable_def Let_def str_find_None split: result.splits)

lemma checkNvencAvailable_trace:
  "fst (checkNvencAvailable env) =
     [Stdout (''Checking for NVENC availability...'' @ endl)] @ fst (exec env probe_command) @
     (case snd (exec env probe_command) of
        Returns output \<Rightarrow>
          if sublist ''h264_nvenc'' output then [Stdout (''NVENC encoder found.'' @ endl)]
          else [Stderr (''Error: h264_nvenc encoder not found by FFmpeg.'' @ endl),
                Stderr (''Please ensure you have NVIDIA drivers installed and an FFmpeg build with NVENC enabled.'' @ endl)]
      | Throws e \<Rightarrow>
          [Stderr (''Error checking for NVENC: '' @ what env e @ endl),
           Stderr (''Is FFmpeg installed and in your system'' @ [CHR 0x27] @ ''s PATH?'' @ endl)]
      | Blocks \<Rightarrow> [])"
  by (cases "exec env probe_command")
     (auto simp: checkNvencAvailable_def Let_def str_find_None split: result.splits)

lemma main_eq:
  "main env argv =
     (case snd (checkNvencAvailable env) of
        Blocks \<Rightarrow> (announce_target argv @ fst (checkNvencAvailable env), Blocks)
      | Throws e \<Rightarrow> (announce_target argv @ fst (checkNvencAvailable env), Throws e)
      | Returns available \<Rightarrow>
          if available
          then (announce_target argv @ fst (checkNvencAvailable env) @
                [Stdout (endl @ ''Executing FFmpeg command:'' @ endl @
                         build_stream_command (resolve_target argv) @ endl @ endl)] @
                fst (launch env (build_stream_command (resolve_target argv))),
                snd (launch env (build_stream_command (resolve_target argv))))
          else (announce_target argv @ fst (checkNvencAvailable env), Returns 1))"
  by (cases "checkNvencAvailable env")
     (auto simp: main_def Let_def split: result.splits prod.splits)

lemmas example_envs = nvenc_env_def no_nvenc_env_def no_pipe_env_def no_memory_env_def
  no_launch_env_def crashed_child_env_def endless_child_env_def bad_image_env_def
  interrupted_child_env_def

lemma encoder_listing_named: "sublist ''h264_nvenc'' encoder_listing"
proof -
  have listing: "encoder_listing = '' V....D '' @ ''h264_nvenc'' @
      (''           NVIDIA NVENC H.264 encoder (codec h264)'' @ endl)"
    by (simp add: encoder_listing_def)
  show ?thesis
    unfolding listing by (rule sublist_appendI)
qed

lemma exec_nvenc_env: "exec nvenc_env cmd = ([Popen cmd ''r'' True, Pclose], Returns encoder_listing)"
  by (rule exec_captures) (simp_all add: nvenc_env_def encoder_listing_def NUL_def endl_def)


lemma exec_no_memory_env: "exec no_memory_env cmd = ([Popen cmd ''r'' True, Pclose], Throws Bad_alloc)"
  by (simp add: exec_def example_envs encoder_listing_def read_loop.simps fgets_def)

lemma exec_Returns_popen:
  "snd (exec env cmd) = Returns output \<Longrightarrow> \<exists>p. os_popen env cmd = Some p"
  by (auto simp: exec_def split: option.splits)

lemma launch_fails:
  "os_create_process env (ffmpegCmd @ [NUL]) = Inl code \<Longrightarrow>
   launch env ffmpegCmd =
     ([CreateProcessA (ffmpegCmd @ [NUL]) None,
       Stderr (''CreateProcess failed ('' @ show_nat (unat code) @ '').'' @ endl),
       Stderr (''Ensure ffmpeg.exe is in your system'' @ [CHR 0x27] @
               ''s PATH or in the same directory as sender.exe.'' @ endl)],
      Returns 1)"
  by (simp add: launch_def)

lemma launch_child_ends:
  "os_create_process env (ffmpegCmd @ [NUL]) = Inr pi \<Longrightarrow>
   child_exit_code env (hProcess pi) = Some code \<Longrightarrow>
   launch env ffmpegCmd =
     ([CreateProcessA (ffmpegCmd @ [NUL]) (Some pi),
       Stdout (''Streaming started... Press Ctrl+C in this window to stop.'' @ endl),
       WaitForSingleObject (hProcess pi),
       Stdout (''Streaming stopped.'' @ endl),
       CloseHandle (hProcess pi),
       CloseHandle (hThread pi)],
      Returns 0)"
  by (simp add: launch_def)

lemma launch_child_runs_on:
  "os_create_process env (ffmpegCmd @ [NUL]) = Inr pi \<Longrightarrow>
   child_exit_code env (hProcess pi) = None \<Longrightarrow>
   launch env ffmpegCmd =
     ([CreateProcessA (ffmpegCmd @ [NUL]) (Some pi),
       Stdout (''Streaming started... Press Ctrl+C in this window to stop.'' @ endl),
       WaitForSingleObject (hProcess pi)],
      Blocks)"
  by (simp add: launch_def)

lemma announce_holds_nothing: "foldl track held (announce_target argv) = held"
  by (simp add: announce_target_def)

lemma held_after_exec:
  "held_after (fst (exec env cmd)) = (if snd (exec env cmd) = Blocks then [Pipe_resource] else [])"
  by (auto simp: exec_def held_after_def split: option.splits pipe.splits result.splits)

lemma held_after_probe:
  "held_after (fst (checkNvencAvailable env)) =
     (if snd (checkNvencAvailable env) = Blocks then [Pipe_resource] else [])"
proof -
  have "held_after (fst (checkNvencAvailable env)) = held_after (fst (exec env probe_command))"
    by (simp add: checkNvencAvailable_trace held_after_def split: result.splits)
  then show ?thesis
    by (simp add: held_after_exec checkNvencAvailable_result split: result.splits)
qed

lemma held_after_launch:
  "foldl track [] (fst (launch env cmd)) =
     (case snd (launch env cmd) of
        Blocks \<Rightarrow> (case os_create_process env (cmd @ [NUL]) of
                     Inr pi \<Rightarrow> [Handle_resource (hProcess pi), Handle_resource (hThread pi)]
                   | Inl code \<Rightarrow> [])
      | _ \<Rightarrow> [])"
  by (auto simp: launch_def Let_def split: sum.splits option.splits)

lemma main_releases:
  "snd (main env argv) \<noteq> Blocks \<Longrightarrow> held_after (fst (main env argv)) = []"
proof (cases "snd (checkNvencAvailable env)")
  case (Returns available)
  assume ends: "snd (main env argv) \<noteq> Blocks"
  from Returns have probe: "held_after (fst (checkNvencAvailable env)) = []"
    by (simp add: held_after_probe)
  show ?thesis
  proof (cases available)
    case True
    with Returns ends have "snd (launch env (build_stream_command (resolve_target argv))) \<noteq> Blocks"
      by (simp add: main_eq)
    then have "foldl track [] (fst (launch env (build_stream_command (resolve_target argv)))) = []"
      by (simp add: held_after_launch split: result.splits)
    with Returns True probe show ?thesis
      by (simp add: main_eq held_after_def announce_holds_nothing)
  next
    case False
    with Returns probe show ?thesis
      by (simp add: main_eq held_after_def announce_holds_nothing)
  qed
next
  case (Throws e)
  then show ?thesis
    by (simp add: checkNvencAvailable_result split: result.splits)
next
  case Blocks
  assume "snd (main env argv) \<noteq> Blocks"
  with Blocks show ?thesis
    by (simp add: main_eq)
qed

lemma main_never_Throws: "snd (main env argv) \<noteq> Throws e"
proof (cases "snd (checkNvencAvailable env)")
  case (Returns available)
  then show ?thesis
    by (simp add: main_eq launch_def Let_def split: sum.splits option.splits)
next
  case (Throws e')
  then show ?thesis
    by (simp add: checkNvencAvailable_result split: result.splits)
next
  case Blocks
  then show ?thesis
    by (simp add: main_eq)
qed

lemma probe_trace_without_encoder:
  assumes "snd (exec env probe_command) = Returns captured"
    and "\<not> sublist ''h264_nvenc'' captured"
  shows "checkNvencAvailable env =
     ([Stdout (''Checking for NVENC availability...'' @ endl),
       Popen probe_command ''r'' True,
       Pclose,
       Stderr (''Error: h264_nvenc encoder not found by FFmpeg.'' @ endl),
       Stderr (''Please ensure you have NVIDIA drivers installed and an FFmpeg build with NVENC enabled.'' @ endl)],
      Returns False)"
proof -
  from assms(1) obtain p where "os_popen env probe_command = Some p"
    using exec_Returns_popen by blast
  with assms(1) have "fst (exec env probe_command) = [Popen probe_command ''r'' True, Pclose]"
    by (simp add: exec_trace)
  with assms show ?thesis
    by (simp add: prod_eq_iff checkNvencAvailable_result checkNvencAvailable_trace)
qed

lemma main_attempts_launch:
  assumes "snd (checkNvencAvailable env) = Returns True"
  shows "\<exists>r. CreateProcessA (build_stream_command (resolve_target argv) @ [NUL]) r
            \<in> set (fst (main env argv))"
proof (cases "os_create_process env (build_stream_command (resolve_target argv) @ [NUL])")
  case (Inl code)
  with assms have "CreateProcessA (build_stream_command (resolve_target argv) @ [NUL]) None
      \<in> set (fst (main env argv))"
    by (simp add: main_eq launch_fails)
  then show ?thesis ..
next
  case (Inr pi)
  with assms have "CreateProcessA (build_stream_command (resolve_target argv) @ [NUL]) (Some pi)
      \<in> set (fst (main env argv))"
    by (cases "child_exit_code env (hProcess pi)")
       (simp_all add: main_eq launch_child_ends launch_child_runs_on)
  then show ?thesis ..
qed

lemma probe_nvenc_env: "checkNvencAvailable nvenc_env =
    ([Stdout (''Checking for NVENC availability...'' @ endl),
      Popen probe_command ''r'' True,
      Pclose,
      Stdout (''NVENC encoder found.'' @ endl)],
     Returns True)"
  by (simp add: prod_eq_iff checkNvencAvailable_result checkNvencAvailable_trace
      exec_nvenc_env encoder_listing_named)

lemma probe_only_reads_pipe:
  assumes "os_popen env' = os_popen env" and "append_fails_at env' = append_fails_at env"
    and "bad_alloc_what env' = bad_alloc_what env"
  shows "checkNvencAvailable env' = checkNvencAvailable env"
proof -
  have "exec env' probe_command = exec env probe_command"
    by (simp add: exec_def assms split: option.splits pipe.splits)
  moreover have "what env' e = what env e" for e
    by (cases e) (simp_all add: assms)
  ultimately show ?thesis
    by (simp add: checkNvencAvailable_def)
qed

lemma main_Returns_0:
  assumes "snd (main env argv) = Returns 0"
  shows "\<exists>(pi::PROCESS_INFORMATION) before. fst (main env argv) =
      before @ [WaitForSingleObject (hProcess pi), Stdout (''Streaming stopped.'' @ endl),
                CloseHandle (hProcess pi), CloseHandle (hThread pi)]"
proof -
  let ?cmd = "build_stream_command (resolve_target argv)"
  from assms have probe: "snd (checkNvencAvailable env) = Returns True"
    by (auto simp: main_eq split: result.splits if_splits)
  with assms have status: "snd (launch env ?cmd) = Returns 0"
    by (simp add: main_eq)
  then obtain pi where created: "os_create_process env (?cmd @ [NUL]) = Inr pi"
    by (cases "os_create_process env (?cmd @ [NUL])") (auto simp: launch_def)
  with status obtain code where ended: "child_exit_code env (hProcess pi) = Some code"
    by (cases "child_exit_code env (hProcess pi)") (auto simp: launch_def)
  let ?before = "announce_target argv @ fst (checkNvencAvailable env) @
      [Stdout (endl @ ''Executing FFmpeg command:'' @ endl @ ?cmd @ endl @ endl),
       CreateProcessA (?cmd @ [NUL]) (Some pi),
       Stdout (''Streaming started... Press Ctrl+C in this window to stop.'' @ endl)]"
  from probe created ended have trace: "fst (main env argv) =
      ?before @ [WaitForSingleObject (hProcess pi), Stdout (''Streaming stopped.'' @ endl),
                 CloseHandle (hProcess pi), CloseHandle (hThread pi)]"
    by (simp add: main_eq launch_child_ends)
  show ?thesis
    by (rule exI [of _ pi], rule exI [of _ ?before], rule trace)
qed

subsection \<open>Decimal text\<close>

lemma below_10: "d < 10 \<Longrightarrow> d \<in> {0, 1, 2, 3, 4, 5, 6, 7, 8, 9::nat}"
  by auto

lemma digit_char_value: "d < 10 \<Longrightarrow> digit_value (digit_char d) = d"
  by (drule below_10) (auto simp: digit_value_def digit_char_def)

lemma digit_char_digit: "d < 10 \<Longrightarrow> decimal_digit (digit_char d)"
  by (drule below_10) (auto simp: decimal_digit_def digit_char_def)

lemma decimal_value_snoc: "decimal_value (s @ [c]) = 10 * decimal_value s + digit_value c"
  by (simp add: decimal_value_def)

lemma decimal_value_show_nat: "decimal_value (show_nat n) = n"
proof (induction n rule: show_nat.induct)
  case (1 n)
  show ?case
  proof (cases "n < 10")
    case True
    then show ?thesis
      by (simp add: show_nat.simps [of n] decimal_value_def digit_char_value)
  next
    case False
    with "1.IH" have "decimal_value (show_nat (n div 10)) = n div 10"
      by simp
    with False show ?thesis
      by (simp add: show_nat.simps [of n] decimal_value_snoc digit_char_value)
  qed
qed

lemma show_nat_digits: "show_nat n \<noteq> [] \<and> list_all decimal_digit (show_nat n)"
proof (induction n rule: show_nat.induct)
  case (1 n)
  show ?case
  proof (cases "n < 10")
    case True
    then show ?thesis
      by (simp add: show_nat.simps [of n] digit_char_digit)
  next
    case False
    with "1.IH" have "list_all decimal_digit (show_nat (n div 10))"
      by simp
    with False show ?thesis
      by (simp add: show_nat.simps [of n] digit_char_digit)
  qed
qed

subsection \<open>The interrupted wait\<close>







section \<open>The claims\<close>

text \<open>
  C1. For every host without command-separator characters, the last token of the command
  line built for the streaming launch is exactly \<open>udp://<host>:5555\<close>, the port being
  the constant \<open>TARGET_PORT = 5555\<close>, and the command line contains the frame-rate
  argument \<open>-framerate 60\<close>, from the constant \<open>FRAME_RATE = 60\<close>: as the text
  \<open>-framerate 60\<close>, and as the token \<open>-framerate\<close> followed by the token \<open>60\<close>.
\<close>

theorem stream_command_destination_and_framerate:
  assumes "\<forall>c \<in> set host. \<not> command_separator c"
  shows "last (tokens (build_stream_command host)) = ''udp://'' @ host @ '':5555'' \<and>
         last (tokens (build_stream_command host)) = ''udp://'' @ host @ '':'' @ show_int TARGET_PORT \<and>
         sublist ''-framerate 60'' (build_stream_command host) \<and>
         sublist [''-framerate'', show_int FRAME_RATE] (tokens (build_stream_command host))"
proof -
  note toks = tokens_build_stream_command [OF assms]
  have last_token: "last (tokens (build_stream_command host)) = ''udp://'' @ host @ '':5555''"
    by (simp add: toks)
  then have with_port:
    "last (tokens (build_stream_command host)) = ''udp://'' @ host @ '':'' @ show_int TARGET_PORT"
    by (simp add: show_int_TARGET_PORT)
  have "tokens (build_stream_command host) =
      [''ffmpeg'', ''-hide_banner'', ''-f'', ''gdigrab''] @ [''-framerate'', ''60''] @
      [''-i'', ''desktop'', ''-c:v'', ''h264_nvenc'', ''-preset'', ''p1'', ''-tune'', ''ll'', ''-qp'', ''0'',
       ''-rc'', ''constqp'', ''-f'', ''mpegts'', ''udp://'' @ host @ '':5555'']"
    by (simp add: toks)
  then have "sublist [''-framerate'', show_int FRAME_RATE] (tokens (build_stream_command host))"
    by (simp only: show_int_FRAME_RATE sublist_appendI)
  with last_token with_port framerate_in_command [of host] show ?thesis
    by blast
qed

theorem stream_command_destination_and_framerate_witness:
  "\<not> list_ex command_separator ''10.0.0.5'' \<and>
   last (tokens (build_stream_command ''10.0.0.5'')) = ''udp://10.0.0.5:5555'' \<and>
   sublist ''-framerate 60'' (build_stream_command ''10.0.0.5'')"
proof -
  have h: "\<forall>c \<in> set ''10.0.0.5''. \<not> command_separator c"
    by (simp add: command_separator_def)
  show ?thesis
    using h stream_command_destination_and_framerate [OF h]
    by (simp add: list_ex_iff)
qed

text \<open>
  C2. The probe returns true exactly when \<open>exec\<close> returned the captured output of the
  listing command and that text contains \<open>h264_nvenc\<close>; for every captured output
  without that substring it returns false. The captured text is what \<open>exec\<close> collected:
  when the pipe delivers its content up to the end of the stream, the content has no NUL
  byte and no append fails, the captured text is the content itself, and the probe
  returns whether the content names the encoder.
\<close>

theorem probe_true_iff_output_names_encoder:
  "(snd (checkNvencAvailable env) = Returns True \<longleftrightarrow>
      (\<exists>output. snd (exec env probe_command) = Returns output \<and> sublist ''h264_nvenc'' output)) \<and>
   (\<forall>output. snd (exec env probe_command) = Returns output \<and> \<not> sublist ''h264_nvenc'' output \<longrightarrow>
      snd (checkNvencAvailable env) = Returns False) \<and>
   (\<forall>content. os_popen env probe_command = Some (Pipe content Eof) \<and> append_fails_at env = None \<and>
      NUL \<notin> set content \<longrightarrow>
      snd (checkNvencAvailable env) = Returns (sublist ''h264_nvenc'' content))"
proof (intro conjI allI impI)
  show "snd (checkNvencAvailable env) = Returns True \<longleftrightarrow>
      (\<exists>output. snd (exec env probe_command) = Returns output \<and> sublist ''h264_nvenc'' output)"
    by (simp add: checkNvencAvailable_result split: result.splits)
next
  fix out
  assume "snd (exec env probe_command) = Returns out \<and> \<not> sublist ''h264_nvenc'' out"
  then show "snd (checkNvencAvailable env) = Returns False"
    by (simp add: checkNvencAvailable_result)
next
  fix content
  assume "os_popen env probe_command = Some (Pipe content Eof) \<and> append_fails_at env = None \<and>
      NUL \<notin> set content"
  then have "exec env probe_command = ([Popen probe_command ''r'' True, Pclose], Returns content)"
    by (simp add: exec_captures)
  then show "snd (checkNvencAvailable env) = Returns (sublist ''h264_nvenc'' content)"
    by (simp add: checkNvencAvailable_result)
qed

theorem probe_true_iff_output_names_encoder_witness:
  "snd (exec nvenc_env probe_command) = Returns encoder_listing \<and>
   sublist ''h264_nvenc'' encoder_listing \<and>
   snd (checkNvencAvailable nvenc_env) = Returns True \<and>
   snd (exec no_nvenc_env probe_command) = Returns [] \<and>
   \<not> sublist ''h264_nvenc'' [] \<and>
   snd (checkNvencAvailable no_nvenc_env) = Returns False"
proof -
  have yes: "snd (exec nvenc_env probe_command) = Returns encoder_listing"
    by (simp add: exec_nvenc_env)
  have no: "snd (exec no_nvenc_env probe_command) = Returns []"
    by (simp add: exec_def example_envs read_loop.simps fgets_def)
  have empty: "\<not> sublist ''h264_nvenc'' []"
    by simp
  from probe_true_iff_output_names_encoder [of nvenc_env] yes encoder_listing_named
  have "snd (checkNvencAvailable nvenc_env) = Returns True"
    by blast
  moreover from probe_true_iff_output_names_encoder [of no_nvenc_env] no empty
  have "snd (checkNvencAvailable no_nvenc_env) = Returns False"
    by blast
  ultimately show ?thesis
    using yes no empty encoder_listing_named by blast
qed

text \<open>
  C3. When the captured output of the probe does not contain \<open>h264_nvenc\<close>, the program
  returns exit status 1, and its trace ends with the two diagnostics of the probe: no
  \<open>CreateProcessA\<close> call occurs anywhere in the run.
\<close>

theorem no_launch_without_encoder:
  assumes "snd (exec env probe_command) = Returns captured"
    and "\<not> sublist ''h264_nvenc'' captured"
  shows "snd (main env argv) = Returns 1 \<and>
     fst (main env argv) =
       announce_target argv @
       [Stdout (''Checking for NVENC availability...'' @ endl),
        Popen probe_command ''r'' True,
        Pclose,
        Stderr (''Error: h264_nvenc encoder not found by FFmpeg.'' @ endl),
        Stderr (''Please ensure you have NVIDIA drivers installed and an FFmpeg build with NVENC enabled.'' @ endl)] \<and>
     (\<forall>cmdVec r. CreateProcessA cmdVec r \<notin> set (fst (main env argv)))"
proof -
  note probe = probe_trace_without_encoder [OF assms]
  then have run: "main env argv =
      (announce_target argv @
       [Stdout (''Checking for NVENC availability...'' @ endl),
        Popen probe_command ''r'' True,
        Pclose,
        Stderr (''Error: h264_nvenc encoder not found by FFmpeg.'' @ endl),
        Stderr (''Please ensure you have NVIDIA drivers installed and an FFmpeg build with NVENC enabled.'' @ endl)],
       Returns 1)"
    by (simp add: main_eq)
  moreover have "\<forall>cmdVec r. CreateProcessA cmdVec r \<notin> set (fst (main env argv))"
    by (auto simp: run announce_target_def)
  ultimately show ?thesis
    by simp
qed

theorem no_launch_without_encoder_witness:
  "snd (exec no_nvenc_env probe_command) = Returns [] \<and>
   \<not> sublist ''h264_nvenc'' [] \<and>
   snd (main no_nvenc_env [''sender'', ''10.0.0.5'']) = Returns 1 \<and>
   fst (main no_nvenc_env [''sender'', ''10.0.0.5'']) =
     [Stdout (''Using target IP from command line: 10.0.0.5'' @ endl),
      Stdout (''Checking for NVENC availability...'' @ endl),
      Popen probe_command ''r'' True,
      Pclose,
      Stderr (''Error: h264_nvenc encoder not found by FFmpeg.'' @ endl),
      Stderr (''Please ensure you have NVIDIA drivers installed and an FFmpeg build with NVENC enabled.'' @ endl)]"
proof -
  have no: "snd (exec no_nvenc_env probe_command) = Returns []"
    by (simp add: exec_def example_envs read_loop.simps fgets_def)
  have empty: "\<not> sublist ''h264_nvenc'' []"
    by simp
  show ?thesis
    using no empty no_launch_without_encoder [OF no empty, of "[''sender'', ''10.0.0.5'']"]
    by (simp add: announce_target_def)
qed

text \<open>
  C4. When \<open>_popen\<close> returns the null pointer, \<open>exec\<close> throws the runtime error
  \<open>_popen() failed!\<close>; the probe catches it, writes the diagnostic with that message to
  the error stream and returns false. Whatever the environment, the probe never ends by
  throwing.
\<close>

theorem probe_degrades_when_pipe_fails:
  "(os_popen env probe_command = None \<longrightarrow>
      exec env probe_command =
        ([Popen probe_command ''r'' False], Throws (Runtime_error ''_popen() failed!'')) \<and>
      checkNvencAvailable env =
        ([Stdout (''Checking for NVENC availability...'' @ endl),
          Popen probe_command ''r'' False,
          Stderr (''Error checking for NVENC: _popen() failed!'' @ endl),
          Stderr (''Is FFmpeg installed and in your system'' @ [CHR 0x27] @ ''s PATH?'' @ endl)],
         Returns False)) \<and>
   (\<forall>e. snd (checkNvencAvailable env) \<noteq> Throws e)"
proof (intro conjI allI impI)
  assume closed: "os_popen env probe_command = None"
  then show "exec env probe_command =
      ([Popen probe_command ''r'' False], Throws (Runtime_error ''_popen() failed!''))"
    by (rule exec_popen_fails)
  then show "checkNvencAvailable env =
      ([Stdout (''Checking for NVENC availability...'' @ endl),
        Popen probe_command ''r'' False,
        Stderr (''Error checking for NVENC: _popen() failed!'' @ endl),
        Stderr (''Is FFmpeg installed and in your system'' @ [CHR 0x27] @ ''s PATH?'' @ endl)],
       Returns False)"
    by (simp add: checkNvencAvailable_def)
next
  fix e
  show "snd (checkNvencAvailable env) \<noteq> Throws e"
    by (simp add: checkNvencAvailable_result split: result.splits)
qed

theorem probe_degrades_when_pipe_fails_witness:
  "os_popen no_pipe_env probe_command = None \<and>
   checkNvencAvailable no_pipe_env =
     ([Stdout (''Checking for NVENC availability...'' @ endl),
       Popen probe_command ''r'' False,
       Stderr (''Error checking for NVENC: _popen() failed!'' @ endl),
       Stderr (''Is FFmpeg installed and in your system'' @ [CHR 0x27] @ ''s PATH?'' @ endl)],
      Returns False)"
proof -
  have closed: "os_popen no_pipe_env probe_command = None"
    by (simp add: example_envs)
  with probe_degrades_when_pipe_fails [of no_pipe_env] show ?thesis
    by blast
qed

text \<open>
  C5. When the encoder was found and \<open>CreateProcessA\<close> fails, the program writes
  \<open>CreateProcess failed (<code>).\<close> to the error stream and returns exit status 1. The
  text \<open><code>\<close> between the brackets is not empty, consists of decimal digits, and read as
  a decimal number it is the value of \<open>GetLastError()\<close>.
\<close>

theorem launch_failure_reported:
  assumes "snd (checkNvencAvailable env) = Returns True"
    and "os_create_process env (build_stream_command (resolve_target argv) @ [NUL]) = Inl code"
  shows "snd (main env argv) = Returns 1 \<and>
     fst (main env argv) =
       announce_target argv @ fst (checkNvencAvailable env) @
       [Stdout (endl @ ''Executing FFmpeg command:'' @ endl @
                build_stream_command (resolve_target argv) @ endl @ endl),
        CreateProcessA (build_stream_command (resolve_target argv) @ [NUL]) None,
        Stderr (''CreateProcess failed ('' @ show_nat (unat code) @ '').'' @ endl),
        Stderr (''Ensure ffmpeg.exe is in your system'' @ [CHR 0x27] @
                ''s PATH or in the same directory as sender.exe.'' @ endl)] \<and>
     show_nat (unat code) \<noteq> [] \<and>
     list_all decimal_digit (show_nat (unat code)) \<and>
     decimal_value (show_nat (unat code)) = unat code"
  using assms
  by (simp add: main_eq launch_fails decimal_value_show_nat show_nat_digits)

theorem launch_failure_reported_witness:
  "snd (checkNvencAvailable bad_image_env) = Returns True \<and>
   os_create_process bad_image_env (build_stream_command (resolve_target [''sender'', ''10.0.0.5'']) @ [NUL]) = Inl 193 \<and>
   snd (main bad_image_env [''sender'', ''10.0.0.5'']) = Returns 1 \<and>
   Stderr (''CreateProcess failed (193).'' @ endl) \<in> set (fst (main bad_image_env [''sender'', ''10.0.0.5''])) \<and>
   decimal_value ''193'' = unat (193::DWORD) \<and>
   snd (main no_launch_env [''sender'']) = Returns 1 \<and>
   Stderr (''CreateProcess failed (2).'' @ endl) \<in> set (fst (main no_launch_env [''sender'']))"
proof -
  let ?argv = "[''sender'', ''10.0.0.5'']"
  have "checkNvencAvailable bad_image_env = checkNvencAvailable nvenc_env"
    by (rule probe_only_reads_pipe) (simp_all add: example_envs)
  then have probe: "snd (checkNvencAvailable bad_image_env) = Returns True"
    by (simp add: probe_nvenc_env)
  have refused: "os_create_process bad_image_env
      (build_stream_command (resolve_target ?argv) @ [NUL]) = Inl 193"
    by (simp add: example_envs)
  have code: "show_nat (unat (193::DWORD)) = ''193''"
    by (simp add: show_nat.simps digit_char_def)
  note run = launch_failure_reported [OF probe refused]
  from run have status: "snd (main bad_image_env ?argv) = Returns 1"
    by (rule conjunct1)
  from run have "Stderr (''CreateProcess failed ('' @ show_nat (unat (193::DWORD)) @ '').'' @ endl)
      \<in> set (fst (main bad_image_env ?argv))"
    by (simp del: unsigned_numeral)
  then have shown: "Stderr (''CreateProcess failed (193).'' @ endl)
      \<in> set (fst (main bad_image_env ?argv))"
    by (simp only: code append.simps)
  from run have "decimal_value (show_nat (unat (193::DWORD))) = unat (193::DWORD)"
    by (simp del: unsigned_numeral)
  then have read_back: "decimal_value ''193'' = unat (193::DWORD)"
    by (simp only: code)
  have "checkNvencAvailable no_launch_env = checkNvencAvailable nvenc_env"
    by (rule probe_only_reads_pipe) (simp_all add: example_envs)
  then have probe': "snd (checkNvencAvailable no_launch_env) = Returns True"
    by (simp add: probe_nvenc_env)
  have refused': "os_create_process no_launch_env
      (build_stream_command (resolve_target [''sender'']) @ [NUL]) = Inl 2"
    by (simp add: example_envs)
  have code': "show_nat (unat (2::DWORD)) = ''2''"
    by (simp add: show_nat.simps digit_char_def)
  note run' = launch_failure_reported [OF probe' refused']
  from run' have status': "snd (main no_launch_env [''sender'']) = Returns 1"
    by (rule conjunct1)
  from run' have "Stderr (''CreateProcess failed ('' @ show_nat (unat (2::DWORD)) @ '').'' @ endl)
      \<in> set (fst (main no_launch_env [''sender'']))"
    by (simp del: unsigned_numeral)
  then have shown': "Stderr (''CreateProcess failed (2).'' @ endl)
      \<in> set (fst (main no_launch_env [''sender'']))"
    by (simp only: code' append.simps)
  from probe refused status shown read_back status' shown' show ?thesis
    by blast
qed




text \<open>
  C7. With no command-line argument (\<open>argc = 1\<close>) the target host is the constant
  \<open>DEFAULT_TARGET_IP = 192.168.1.100\<close>, the command line built ends in
  \<open>udp://192.168.1.100:5555\<close>, and when the encoder was found that command line is the one
  passed to \<open>CreateProcessA\<close>.
\<close>

theorem default_target_without_argument:
  assumes "length argv = 1"
  shows "resolve_target argv = DEFAULT_TARGET_IP \<and>
     resolve_target argv = ''192.168.1.100'' \<and>
     build_stream_command (resolve_target argv) =
       ''ffmpeg -hide_banner -f gdigrab -framerate 60 -i desktop -c:v h264_nvenc -preset p1 -tune ll -qp 0 -rc constqp -f mpegts udp://192.168.1.100:5555'' \<and>
     (snd (checkNvencAvailable env) = Returns True \<longrightarrow>
        (\<exists>r. CreateProcessA (build_stream_command ''192.168.1.100'' @ [NUL]) r \<in> set (fst (main env argv))))"
proof -
  from assms have host: "resolve_target argv = ''192.168.1.100''"
    by (simp add: resolve_target_def DEFAULT_TARGET_IP_def)
  moreover have "snd (checkNvencAvailable env) = Returns True \<longrightarrow>
      (\<exists>r. CreateProcessA (build_stream_command ''192.168.1.100'' @ [NUL]) r \<in> set (fst (main env argv)))"
    using main_attempts_launch [of env argv] host by simp
  ultimately show ?thesis
    by (simp add: build_stream_command_eq DEFAULT_TARGET_IP_def)
qed

theorem default_target_without_argument_witness:
  "length [''sender''] = 1 \<and>
   resolve_target [''sender''] = ''192.168.1.100'' \<and>
   snd (checkNvencAvailable nvenc_env) = Returns True \<and>
   (\<exists>r. CreateProcessA (build_stream_command ''192.168.1.100'' @ [NUL]) r
          \<in> set (fst (main nvenc_env [''sender''])))"
proof -
  have one: "length [''sender''] = 1"
    by simp
  have probe: "snd (checkNvencAvailable nvenc_env) = Returns True"
    by (simp add: probe_nvenc_env)
  from default_target_without_argument [OF one, of nvenc_env] one probe show ?thesis
    by blast
qed

text \<open>
  C8. For every host string, whatever characters it holds, the command builder puts the
  host unchanged between \<open>udp://\<close> and \<open>:5555\<close> at the end of a fixed text: nothing is
  quoted, escaped or rejected.
\<close>

theorem host_embedded_verbatim:
  "build_stream_command host =
     ''ffmpeg -hide_banner -f gdigrab -framerate 60 -i desktop -c:v h264_nvenc -preset p1 -tune ll -qp 0 -rc constqp -f mpegts '' @
     ''udp://'' @ host @ '':5555''"
  by (simp add: build_stream_command_eq)

text \<open>
  C9. On every path on which the program ends, no acquired resource is still held: the
  resources held after the trace are none, and no exception of \<open>exec\<close> leaves \<open>main\<close>.
  In \<open>exec\<close>, once the pipe is open, \<open>_pclose\<close> follows both when the stream was read to
  its end and when an exception was thrown while reading. A run that returns 0 ends with
  the wait on the child, the report that streaming stopped, and the closing of the process
  handle and of the thread handle.
\<close>

theorem resources_released_on_every_exit:
  "(snd (main env argv) \<noteq> Blocks \<longrightarrow> held_after (fst (main env argv)) = []) \<and>
   (\<forall>e. snd (main env argv) \<noteq> Throws e) \<and>
   (\<forall>p. os_popen env cmd = Some p \<longrightarrow>
      (\<forall>captured. snd (exec env cmd) = Returns captured \<longrightarrow>
         fst (exec env cmd) = [Popen cmd ''r'' True, Pclose]) \<and>
      (\<forall>e. snd (exec env cmd) = Throws e \<longrightarrow>
         fst (exec env cmd) = [Popen cmd ''r'' True, Pclose])) \<and>
   (snd (main env argv) = Returns 0 \<longrightarrow>
      (\<exists>(pi::PROCESS_INFORMATION) before. fst (main env argv) =
         before @ [WaitForSingleObject (hProcess pi), Stdout (''Streaming stopped.'' @ endl),
                   CloseHandle (hProcess pi), CloseHandle (hThread pi)]))"
proof (intro conjI allI impI)
  assume "snd (main env argv) \<noteq> Blocks"
  then show "held_after (fst (main env argv)) = []"
    by (rule main_releases)
next
  fix e
  show "snd (main env argv) \<noteq> Throws e"
    by (rule main_never_Throws)
next
  fix p captured
  assume "os_popen env cmd = Some p" and "snd (exec env cmd) = Returns captured"
  then show "fst (exec env cmd) = [Popen cmd ''r'' True, Pclose]"
    by (simp add: exec_trace)
next
  fix p e
  assume "os_popen env cmd = Some p" and "snd (exec env cmd) = Throws e"
  then show "fst (exec env cmd) = [Popen cmd ''r'' True, Pclose]"
    by (simp add: exec_trace)
next
  assume "snd (main env argv) = Returns 0"
  then show "\<exists>(pi::PROCESS_INFORMATION) before. fst (main env argv) =
      before @ [WaitForSingleObject (hProcess pi), Stdout (''Streaming stopped.'' @ endl),
                CloseHandle (hProcess pi), CloseHandle (hThread pi)]"
    by (rule main_Returns_0)
qed

theorem resources_released_on_every_exit_witness:
  "snd (main nvenc_env [''sender'', ''10.0.0.5'']) = Returns 0 \<and>
   held_after (fst (main nvenc_env [''sender'', ''10.0.0.5''])) = [] \<and>
   snd (exec no_memory_env probe_command) = Throws Bad_alloc \<and>
   fst (exec no_memory_env probe_command) = [Popen probe_command ''r'' True, Pclose] \<and>
   snd (main no_memory_env [''sender'', ''10.0.0.5'']) = Returns 1 \<and>
   held_after (fst (main no_memory_env [''sender'', ''10.0.0.5''])) = []"
proof -
  let ?argv = "[''sender'', ''10.0.0.5'']"
  have "snd (launch nvenc_env ffmpegCmd) = Returns 0" for ffmpegCmd
    by (simp add: launch_def example_envs)
  then have good: "snd (main nvenc_env ?argv) = Returns 0"
    by (simp add: main_eq probe_nvenc_env)
  have piped: "os_popen no_memory_env probe_command = Some (Pipe encoder_listing Eof)"
    by (simp add: example_envs)
  have thrown: "snd (exec no_memory_env probe_command) = Throws Bad_alloc"
    by (simp add: exec_no_memory_env)
  then have bad: "snd (main no_memory_env ?argv) = Returns 1"
    by (simp add: main_eq checkNvencAvailable_result)
  note nvenc = resources_released_on_every_exit [of nvenc_env ?argv probe_command]
  note no_memory = resources_released_on_every_exit [of no_memory_env ?argv probe_command]
  from nvenc good have "held_after (fst (main nvenc_env ?argv)) = []"
    by simp
  moreover from no_memory piped thrown
  have "fst (exec no_memory_env probe_command) = [Popen probe_command ''r'' True, Pclose]"
    by blast
  moreover from no_memory bad have "held_after (fst (main no_memory_env ?argv)) = []"
    by simp
  ultimately show ?thesis
    using good thrown bad by simp
qed

text \<open>
  C10. For argument vectors with \<open>argc \<ge> 2\<close> the target host is \<open>argv[1]\<close>, and two
  vectors that agree on \<open>argv[1]\<close> give the same command line and the same run, in the
  same environment: arguments after \<open>argv[1]\<close> are ignored.
\<close>

theorem only_first_argument_matters:
  assumes "2 \<le> length argv" and "2 \<le> length argv'" and "argv ! 1 = argv' ! 1"
  shows "resolve_target argv = argv ! 1 \<and>
     build_stream_command (resolve_target argv) = build_stream_command (resolve_target argv') \<and>
     main env argv = main env argv'"
proof -
  from assms have "resolve_target argv = argv ! 1" "resolve_target argv' = argv ! 1"
    by (simp_all add: resolve_target_def)
  moreover from assms have "announce_target argv = announce_target argv'"
    by (simp add: announce_target_def)
  ultimately show ?thesis
    by (simp add: main_def)
qed

theorem only_first_argument_matters_witness:
  "resolve_target [''sender'', ''10.0.0.5'', ''10.9.9.9'', ''--port=1''] = ''10.0.0.5'' \<and>
   main nvenc_env [''sender'', ''10.0.0.5'', ''10.9.9.9'', ''--port=1''] =
   main nvenc_env [''sender'', ''10.0.0.5'']"
proof -
  have "2 \<le> length [''sender'', ''10.0.0.5'', ''10.9.9.9'', ''--port=1'']"
    and "2 \<le> length [''sender'', ''10.0.0.5'']"
    and "[''sender'', ''10.0.0.5'', ''10.9.9.9'', ''--port=1''] ! 1 = [''sender'', ''10.0.0.5''] ! 1"
    by simp_all
  from only_first_argument_matters [OF this, of nvenc_env] show ?thesis
    by simp
qed

end
